theory Spec2Isabelle
  imports Main "HOL-Library.Word"
begin

section \<open>Data model of disgoreact.go\<close>

text \<open>
  Go's \<^verbatim>\<open>time.Duration\<close> is a signed 64-bit integer (nanoseconds); \<^verbatim>\<open>int\<close> is
  taken at 64 bits as well. Both are only compared with zero or passed on, never computed
  with.
\<close>

type_synonym Duration = "64 word"
type_synonym goint = "64 word"

text \<open>
  Errors. The package builds its own errors with \<^verbatim>\<open>fmt.Errorf(format, args...)\<close>; the
  format string and its arguments are kept apart, unformatted. An error handed back by a
  call of the discordgo library is opaque.
\<close>

datatype error = Errorf string "string list" | LibError string

text \<open>
  \<^verbatim>\<open>discordgo.User\<close> and \<^verbatim>\<open>discordgo.Message\<close> are declared by the library, not by
  this package. The code reads \<^verbatim>\<open>User.ID\<close>, \<^verbatim>\<open>Message.ID\<close> and
  \<^verbatim>\<open>Message.ChannelID\<close>, and compares a whole \<^verbatim>\<open>User\<close> with the zero value
  \<^verbatim>\<open>discordgo.User{}\<close>. A user is its \<open>ID\<close> together with all the other fields of the
  library's struct, kept as one value \<open>Others\<close> of a type \<open>'r\<close> that is left open; the
  zero of \<open>'r\<close> is the value with every one of those fields at its zero. Two users are
  equal when the ID and all the other fields agree, as Go compares structs.
\<close>

record 'r User =
  ID :: string
  Others :: 'r

record Message =
  ID :: string
  ChannelID :: string

text \<open>The zero value \<^verbatim>\<open>discordgo.User{}\<close>: the empty ID and every other field at zero.\<close>

definition emptyUser :: "('r::zero) User" where
  "emptyUser = \<lparr> User.ID = [], Others = 0 \<rparr>"

text \<open>
  \<^verbatim>\<open>discordgo.Session\<close>: the handle to the remote service. Each method used by the
  package is a function on the state \<open>'s\<close> of the service, returning the method's result
  and the state after the call. \<open>StateUserID\<close> is the field read
  \<^verbatim>\<open>ses.State.User.ID\<close>, the bot's own identity.
\<close>

record ('s, 'r) Session =
  StateUserID :: string
  MessageReactionAdd :: "string \<Rightarrow> string \<Rightarrow> string \<Rightarrow> 's \<Rightarrow> error option \<times> 's"
  MessageReactions :: "string \<Rightarrow> string \<Rightarrow> string \<Rightarrow> goint \<Rightarrow> 's \<Rightarrow> (error + 'r User list) \<times> 's"
  MessageReactionRemove :: "string \<Rightarrow> string \<Rightarrow> string \<Rightarrow> string \<Rightarrow> 's \<Rightarrow> error option \<times> 's"
  MessageReactionsRemoveAll :: "string \<Rightarrow> string \<Rightarrow> 's \<Rightarrow> error option \<times> 's"

text \<open>
  \<^verbatim>\<open>WatchContext\<close>. \<^verbatim>\<open>Message\<close> and \<^verbatim>\<open>Session\<close> are pointers and \<^verbatim>\<open>Data\<close> is
  an interface value: each may be nil (\<open>None\<close>).
\<close>

record ('s, 'd, 'r) WatchContext =
  Message :: "Message option"
  Session :: "('s, 'r) Session option"
  TickRate :: Duration
  Data :: "'d option"

text \<open>
  \<^verbatim>\<open>Option\<close>. The two callbacks are caller-supplied functions; they receive the user (or
  the error) and the context, and whatever they do to the remote service is a function on
  its state. Both are taken to be set and to return: a nil callback, or one that never
  comes back, is outside the model.
\<close>

record ('s, 'd, 'r) Option =
  Emoji :: string
  OnSucess :: "'r User \<Rightarrow> ('s, 'd, 'r) WatchContext \<Rightarrow> 's \<Rightarrow> 's"
  OnError :: "error \<Rightarrow> ('s, 'd, 'r) WatchContext \<Rightarrow> 's \<Rightarrow> 's"
  ReactionLimit :: goint
  Expiration :: Duration

text \<open>
  What the package does to the outside, in the order it does it: the four remote calls
  (with their arguments), the two callbacks, and the start of a goroutine running
  \<^verbatim>\<open>ctx.watcher(v)\<close>.
\<close>

datatype ('s, 'd, 'r) action =
    CallReactionAdd string string string
  | CallReactions string string string goint
  | CallReactionRemove string string string string
  | CallReactionsRemoveAll string string
  | CbSucess "'r User"
  | CbError error
  | GoWatcher "('s, 'd, 'r) Option"

text \<open>The world: the state of the remote service and the actions so far.\<close>

record ('s, 'd, 'r) world =
  svc :: 's
  trace :: "('s, 'd, 'r) action list"

text \<open>A call either returns or panics (a nil pointer is dereferenced).\<close>

datatype 'a result = Panic | Return 'a

section \<open>NewWatcher\<close>

text \<open>
  \<^verbatim>\<open>NewWatcher\<close> returns a pointer and an error. The pointer is \<open>None\<close> for nil and
  \<open>Some c\<close> for the address of a context \<open>c\<close>.
\<close>

definition NewWatcher ::
  "Message option \<Rightarrow> ('s, 'r) Session option \<Rightarrow> Duration \<Rightarrow> 'd option
     \<Rightarrow> ('s, 'd, 'r) WatchContext option \<times> error option" where
  "NewWatcher message session tickRate data =
     (if tickRate = 0
      then (Some \<lparr> Message = None, Session = None, TickRate = 0, Data = None \<rparr>,
            Some (Errorf ''no tickrate specified (cannot be 0)'' []))
      else (Some \<lparr> Message = message, Session = session, TickRate = tickRate, Data = data \<rparr>,
            None))"

section \<open>poll\<close>

text \<open>
  The \<^verbatim>\<open>for _, u := range users\<close> loop of \<^verbatim>\<open>poll\<close>: the bot's own reaction is
  skipped; at the first other user the reaction is removed and the loop is left, with the
  zero user and the error if the removal failed, with that user otherwise. A list that
  runs out gives the zero user and no error.
\<close>

fun poll_range ::
  "('s, 'r::zero) Session \<Rightarrow> string \<Rightarrow> string \<Rightarrow> ('s, 'd, 'r) Option \<Rightarrow> 'r User list \<Rightarrow> ('s, 'd, 'r) world
     \<Rightarrow> ('r User \<times> error option) \<times> ('s, 'd, 'r) world" where
  "poll_range ses chID msID opt [] w = ((emptyUser, None), w)"
| "poll_range ses chID msID opt (u # users) w =
     (if User.ID u = StateUserID ses then poll_range ses chID msID opt users w
      else
        (case MessageReactionRemove ses chID msID (Emoji opt) (User.ID u) (svc w) of
           (err, s') \<Rightarrow>
             let w' = w\<lparr> svc := s',
                         trace := trace w @ [CallReactionRemove chID msID (Emoji opt) (User.ID u)] \<rparr>
             in (case err of
                   Some e \<Rightarrow> ((emptyUser, Some e), w')
                 | None \<Rightarrow> ((u, None), w'))))"

text \<open>
  \<^verbatim>\<open>poll\<close> takes the session pointer; a nil session faults inside the library's
  \<^verbatim>\<open>MessageReactions\<close>. The guard \<^verbatim>\<open>len(users) >= 1\<close> only skips the loop over
  an empty list.
\<close>

definition poll ::
  "('s, 'r::zero) Session option \<Rightarrow> string \<Rightarrow> string \<Rightarrow> ('s, 'd, 'r) Option \<Rightarrow> ('s, 'd, 'r) world
     \<Rightarrow> ('r User \<times> error option) result \<times> ('s, 'd, 'r) world" where
  "poll sesp chID msID opt w =
     (case sesp of
        None \<Rightarrow> (Panic, w)
      | Some ses \<Rightarrow>
          (case MessageReactions ses chID msID (Emoji opt) (ReactionLimit opt) (svc w) of
             (r, s') \<Rightarrow>
               let w' = w\<lparr> svc := s',
                           trace := trace w @ [CallReactions chID msID (Emoji opt) (ReactionLimit opt)] \<rparr>
               in (case r of
                     Inl err \<Rightarrow> (Return (emptyUser, Some err), w')
                   | Inr users \<Rightarrow>
                       if length users \<ge> 1
                       then (case poll_range ses chID msID opt users w' of
                               (res, w'') \<Rightarrow> (Return res, w''))
                       else (Return (emptyUser, None), w'))))"

section \<open>watcher\<close>

text \<open>
  The goroutine \<^verbatim>\<open>ctx.watcher(opt)\<close> blocks in \<^verbatim>\<open>select\<close> on two channels: the
  expiration timer \<^verbatim>\<open>time.After(opt.Expiration)\<close> and the ticker
  \<^verbatim>\<open>time.Tick(ctx.TickRate)\<close>. The timers are the runtime's; the model takes the
  sequence of receives that \<^verbatim>\<open>select\<close> delivers as its input. The expiration
  channel delivers once; where both channels are ready, \<^verbatim>\<open>select\<close> takes either, and
  the sequence says which.
\<close>

datatype event = FromExpiration | FromTick

text \<open>
  Where the goroutine stands once the events are used up: blocked in \<^verbatim>\<open>select\<close> with
  the local variable \<^verbatim>\<open>expired\<close> at the given value, returned, or panicked.
\<close>

datatype status = Running bool | Returned | Panicked

text \<open>
  The \<^verbatim>\<open>for { select { ... } }\<close> loop, by recursion on the events. Evaluating
  \<^verbatim>\<open>ctx.Message.ChannelID\<close> panics on a nil message, and the library's
  \<^verbatim>\<open>MessageReactionsRemoveAll\<close> faults on a nil session. The result of
  \<^verbatim>\<open>MessageReactionsRemoveAll\<close> is dropped. After \<^verbatim>\<open>OnSucess\<close> the loop goes on:
  only the expired branch and the error branch \<^verbatim>\<open>return\<close>.
\<close>

fun watcher_loop ::
  "('s, 'd, 'r::zero) WatchContext \<Rightarrow> ('s, 'd, 'r) Option \<Rightarrow> bool \<Rightarrow> event list \<Rightarrow> ('s, 'd, 'r) world
     \<Rightarrow> status \<times> ('s, 'd, 'r) world" where
  "watcher_loop ctx opt expired [] w = (Running expired, w)"
| "watcher_loop ctx opt expired (FromExpiration # evs) w = watcher_loop ctx opt True evs w"
| "watcher_loop ctx opt expired (FromTick # evs) w =
     (if expired then
        (case (Message ctx, Session ctx) of
           (Some m, Some ses) \<Rightarrow>
             (case MessageReactionsRemoveAll ses (ChannelID m) (Message.ID m) (svc w) of
                (_, s') \<Rightarrow>
                  (Returned,
                   w\<lparr> svc := s',
                      trace := trace w @ [CallReactionsRemoveAll (ChannelID m) (Message.ID m)] \<rparr>))
         | _ \<Rightarrow> (Panicked, w))
      else
        (case Message ctx of
           None \<Rightarrow> (Panicked, w)
         | Some m \<Rightarrow>
             (case poll (Session ctx) (ChannelID m) (Message.ID m) opt w of
                (Panic, w') \<Rightarrow> (Panicked, w')
              | (Return (user, Some err), w') \<Rightarrow>
                  (Returned,
                   w'\<lparr> svc := OnError opt err ctx (svc w'), trace := trace w' @ [CbError err] \<rparr>)
              | (Return (user, None), w') \<Rightarrow>
                  if emptyUser \<noteq> user
                  then watcher_loop ctx opt expired evs
                         (w'\<lparr> svc := OnSucess opt user ctx (svc w'),
                             trace := trace w' @ [CbSucess user] \<rparr>)
                  else watcher_loop ctx opt expired evs w')))"

text \<open>\<^verbatim>\<open>watcher\<close> starts the loop with \<^verbatim>\<open>expired := false\<close>.\<close>

definition watcher ::
  "('s, 'd, 'r::zero) WatchContext \<Rightarrow> ('s, 'd, 'r) Option \<Rightarrow> event list \<Rightarrow> ('s, 'd, 'r) world
     \<Rightarrow> status \<times> ('s, 'd, 'r) world" where
  "watcher ctx opt evs w = watcher_loop ctx opt False evs w"

section \<open>Add\<close>

text \<open>
  The \<^verbatim>\<open>for _, v := range options\<close> loop of \<^verbatim>\<open>Add\<close>. The error of a failed
  \<^verbatim>\<open>MessageReactionAdd\<close> is replaced by one that quotes the message ID. The statement
  \<^verbatim>\<open>go ctx.watcher(v)\<close> only starts the goroutine; the loop does not wait for it.
\<close>

fun Add_range ::
  "('s, 'd, 'r) WatchContext \<Rightarrow> ('s, 'd, 'r) Option list \<Rightarrow> ('s, 'd, 'r) world
     \<Rightarrow> error option result \<times> ('s, 'd, 'r) world" where
  "Add_range ctx [] w = (Return None, w)"
| "Add_range ctx (v # options) w =
     (case (Message ctx, Session ctx) of
        (Some m, Some ses) \<Rightarrow>
          (case MessageReactionAdd ses (ChannelID m) (Message.ID m) (Emoji v) (svc w) of
             (err, s') \<Rightarrow>
               let w' = w\<lparr> svc := s',
                           trace := trace w @ [CallReactionAdd (ChannelID m) (Message.ID m) (Emoji v)] \<rparr>
               in (case err of
                     Some e \<Rightarrow>
                       (Return (Some (Errorf
                          ''can't add reaction to message %q. Was that a unicode emoji?''
                          [Message.ID m])), w')
                   | None \<Rightarrow> Add_range ctx options (w'\<lparr> trace := trace w' @ [GoWatcher v] \<rparr>)))
      | _ \<Rightarrow> (Panic, w))"

text \<open>
  \<^verbatim>\<open>Add\<close> is a method on the context pointer. The length check reads no field of the
  context; the loop dereferences it.
\<close>

definition Add ::
  "('s, 'd, 'r) WatchContext option \<Rightarrow> ('s, 'd, 'r) Option list \<Rightarrow> ('s, 'd, 'r) world
     \<Rightarrow> error option result \<times> ('s, 'd, 'r) world" where
  "Add ctxp options w =
     (if length options = 0 then (Return (Some (Errorf ''no emoji options specified'' [])), w)
      else (case ctxp of
              None \<Rightarrow> (Panic, w)
            | Some ctx \<Rightarrow> Add_range ctx options w))"

section \<open>Reading a trace\<close>

text \<open>Which actions are polls, removals of one reaction, cleanups, and callbacks.\<close>

fun is_poll_call :: "('s, 'd, 'r) action \<Rightarrow> bool" where
  "is_poll_call (CallReactions c m e l) = True"
| "is_poll_call a = False"

fun is_remove_call :: "('s, 'd, 'r) action \<Rightarrow> bool" where
  "is_remove_call (CallReactionRemove c m e u) = True"
| "is_remove_call a = False"

fun is_cleanup_call :: "('s, 'd, 'r) action \<Rightarrow> bool" where
  "is_cleanup_call (CallReactionsRemoveAll c m) = True"
| "is_cleanup_call a = False"

fun is_success_cb :: "('s, 'd, 'r) action \<Rightarrow> bool" where
  "is_success_cb (CbSucess u) = True"
| "is_success_cb a = False"

fun is_error_cb :: "('s, 'd, 'r) action \<Rightarrow> bool" where
  "is_error_cb (CbError e) = True"
| "is_error_cb a = False"

text \<open>
  The actions a watcher can take and still go on: a poll, the removal of one reaction, a
  success callback.
\<close>

definition goes_on :: "('s, 'd, 'r) action \<Rightarrow> bool" where
  "goes_on a = (is_poll_call a \<or> is_remove_call a \<or> is_success_cb a)"

text \<open>
  What \<^verbatim>\<open>Add\<close> does for a list of options when every attach succeeds: for each option,
  in the order given, the attach call and then the start of its watcher.
\<close>

fun Add_plan :: "Message \<Rightarrow> ('s, 'd, 'r) Option list \<Rightarrow> ('s, 'd, 'r) action list" where
  "Add_plan m [] = []"
| "Add_plan m (v # vs) =
     CallReactionAdd (ChannelID m) (Message.ID m) (Emoji v) # GoWatcher v # Add_plan m vs"

section \<open>A service in memory\<close>

text \<open>
  A concrete remote service to run the model on. Its users carry, beside the ID, a name,
  an avatar and the bot flag, each at its zero in the zero account. The state: the
  reactors of the one emoji watched,
  the emoji the service refuses to attach, the number of listings it still answers
  before it fails, and a switch that makes the removals fail.
\<close>

datatype account = Account (Username: string) (Avatar: string) (Bot: bool)

instantiation account :: zero
begin

definition zero_account :: account where
  "zero_account = Account [] [] False"

instance ..

end

record remote =
  reactors :: "account User list"
  refused :: "string list"
  listings :: nat
  removeDown :: bool

definition memSession :: "string \<Rightarrow> (remote, account) Session" where
  "memSession self =
     \<lparr> StateUserID = self,
       MessageReactionAdd = (\<lambda>ch ms em s.
         (if em \<in> set (refused s) then Some (LibError ''Unknown Emoji'') else None, s)),
       MessageReactions = (\<lambda>ch ms em lim s.
         if listings s = 0 then (Inl (LibError ''Service Unavailable''), s)
         else (Inr (reactors s), s\<lparr> listings := listings s - 1 \<rparr>)),
       MessageReactionRemove = (\<lambda>ch ms em uid s.
         if removeDown s then (Some (LibError ''Missing Permissions''), s)
         else (None, s\<lparr> reactors := filter (\<lambda>u. User.ID u \<noteq> uid) (reactors s) \<rparr>)),
       MessageReactionsRemoveAll = (\<lambda>ch ms s.
         if removeDown s then (Some (LibError ''Missing Permissions''), s)
         else (None, s\<lparr> reactors := [] \<rparr>)) \<rparr>"

definition botUser :: "account User" where
  "botUser = \<lparr> User.ID = ''1'', Others = Account ''bot'' ''b.png'' True \<rparr>"

definition userA :: "account User" where
  "userA = \<lparr> User.ID = ''2'', Others = Account ''a'' [] False \<rparr>"

definition userB :: "account User" where
  "userB = \<lparr> User.ID = ''3'', Others = Account ''b'' [] False \<rparr>"

definition memMessage :: Message where
  "memMessage = \<lparr> Message.ID = ''70'', ChannelID = ''7'' \<rparr>"

definition memContext :: "(remote, unit, account) WatchContext" where
  "memContext =
     \<lparr> Message = Some memMessage, Session = Some (memSession ''1''), TickRate = 1000000000,
       Data = None \<rparr>"

text \<open>An option whose callbacks leave the service alone.\<close>

definition memOption :: "string \<Rightarrow> (remote, unit, account) Option" where
  "memOption em =
     \<lparr> Emoji = em, OnSucess = (\<lambda>u c s. s), OnError = (\<lambda>e c s. s), ReactionLimit = 10,
       Expiration = 2500000000 \<rparr>"

definition memWorld :: "account User list \<Rightarrow> string list \<Rightarrow> nat \<Rightarrow> bool \<Rightarrow> (remote, unit, account) world" where
  "memWorld us bad n rd =
     \<lparr> svc = \<lparr> reactors = us, refused = bad, listings = n, removeDown = rd \<rparr>, trace = [] \<rparr>"

section \<open>Auxiliary facts\<close>

lemma poll_range_skip:
  "\<forall>x\<in>set pre. User.ID x = StateUserID ses \<Longrightarrow>
   poll_range ses c m opt (pre @ rest) w = poll_range ses c m opt rest w"
  by (induction pre) simp_all

lemma poll_range_nobody:
  "\<forall>x\<in>set users. User.ID x = StateUserID ses \<Longrightarrow>
   poll_range ses c m opt users w = ((emptyUser, None), w)"
  by (induction users) simp_all

lemma poll_range_first:
  assumes "\<forall>x\<in>set pre. User.ID x = StateUserID ses"
    and "User.ID u \<noteq> StateUserID ses"
    and "MessageReactionRemove ses c m (Emoji opt) (User.ID u) (svc w) = (r, s2)"
  shows "poll_range ses c m opt (pre @ u # rest) w =
           ((case r of None \<Rightarrow> u | Some e \<Rightarrow> emptyUser, r),
            w\<lparr> svc := s2, trace := trace w @ [CallReactionRemove c m (Emoji opt) (User.ID u)] \<rparr>)"
  using assms by (simp add: poll_range_skip split: option.split)

lemma poll_range_trace:
  "\<exists>added. trace (snd (poll_range ses c m opt users w)) = trace w @ added
      \<and> (\<forall>a\<in>set added. is_remove_call a)"
  by (induction users) (auto simp: Let_def split: prod.split option.split)

lemma poll_unfold:
  assumes "MessageReactions ses c m (Emoji opt) (ReactionLimit opt) (svc w) = (r, s1)"
  shows "poll (Some ses) c m opt w =
           (case r of
              Inl err \<Rightarrow>
                (Return (emptyUser, Some err),
                 w\<lparr> svc := s1, trace := trace w @ [CallReactions c m (Emoji opt) (ReactionLimit opt)] \<rparr>)
            | Inr users \<Rightarrow>
                (Return (fst (poll_range ses c m opt users
                   (w\<lparr> svc := s1, trace := trace w @ [CallReactions c m (Emoji opt) (ReactionLimit opt)] \<rparr>))),
                 snd (poll_range ses c m opt users
                   (w\<lparr> svc := s1, trace := trace w @ [CallReactions c m (Emoji opt) (ReactionLimit opt)] \<rparr>))))"
proof (cases r)
  case (Inl e)
  with assms show ?thesis by (simp add: poll_def)
next
  case (Inr users)
  with assms show ?thesis
    by (cases users) (simp_all add: poll_def Let_def split: prod.split)
qed

lemma poll_trace:
  "\<exists>added. trace (snd (poll sesp c m opt w)) = trace w @ added
      \<and> (\<forall>a\<in>set added. is_poll_call a \<or> is_remove_call a)"
proof (cases sesp)
  case None
  then show ?thesis by (simp add: poll_def)
next
  case (Some ses)
  obtain r s1 where lst: "MessageReactions ses c m (Emoji opt) (ReactionLimit opt) (svc w) = (r, s1)"
    by (cases "MessageReactions ses c m (Emoji opt) (ReactionLimit opt) (svc w)")
  let ?w1 = "w\<lparr> svc := s1, trace := trace w @ [CallReactions c m (Emoji opt) (ReactionLimit opt)] \<rparr>"
  show ?thesis
  proof (cases r)
    case (Inl e)
    with Some lst show ?thesis by (simp add: poll_unfold)
  next
    case (Inr users)
    from poll_range_trace [of ses c m opt users ?w1]
    obtain added where "trace (snd (poll_range ses c m opt users ?w1)) = trace ?w1 @ added"
      and "\<forall>a\<in>set added. is_remove_call a" by blast
    with Some lst Inr show ?thesis
      by (simp add: poll_unfold)
  qed
qed

lemma watcher_tick_expired:
  assumes "Message ctx = Some m" and "Session ctx = Some ses"
    and "MessageReactionsRemoveAll ses (ChannelID m) (Message.ID m) (svc w) = (r, s1)"
  shows "watcher_loop ctx opt True (FromTick # evs) w =
           (Returned,
            w\<lparr> svc := s1, trace := trace w @ [CallReactionsRemoveAll (ChannelID m) (Message.ID m)] \<rparr>)"
  using assms by simp

lemma watcher_tick_error:
  assumes "Message ctx = Some m"
    and "poll (Session ctx) (ChannelID m) (Message.ID m) opt w = (Return (u, Some e), w')"
  shows "watcher_loop ctx opt False (FromTick # evs) w =
           (Returned, w'\<lparr> svc := OnError opt e ctx (svc w'), trace := trace w' @ [CbError e] \<rparr>)"
  using assms by simp

lemma watcher_tick_success:
  assumes "Message ctx = Some m"
    and "poll (Session ctx) (ChannelID m) (Message.ID m) opt w = (Return (u, None), w')"
    and "u \<noteq> emptyUser"
  shows "watcher_loop ctx opt False (FromTick # evs) w =
           watcher_loop ctx opt False evs
             (w'\<lparr> svc := OnSucess opt u ctx (svc w'), trace := trace w' @ [CbSucess u] \<rparr>)"
proof -
  from assms(3) have "emptyUser \<noteq> u" by blast
  with assms(1,2) show ?thesis by simp
qed

lemma watcher_tick_nobody:
  assumes "Message ctx = Some m"
    and "poll (Session ctx) (ChannelID m) (Message.ID m) opt w = (Return (emptyUser, None), w')"
  shows "watcher_loop ctx opt False (FromTick # evs) w = watcher_loop ctx opt False evs w'"
  using assms by simp

lemma watcher_tick_panic:
  assumes "Message ctx = Some m"
    and "poll (Session ctx) (ChannelID m) (Message.ID m) opt w = (Panic, w')"
  shows "watcher_loop ctx opt False (FromTick # evs) w = (Panicked, w')"
  using assms by simp

lemma watcher_loop_append:
  "watcher_loop ctx opt ex (pre @ evs) w =
     (case watcher_loop ctx opt ex pre w of
        (Running ex', w') \<Rightarrow> watcher_loop ctx opt ex' evs w'
      | r \<Rightarrow> r)"
proof (induction pre arbitrary: ex w)
  case Nil
  show ?case by simp
next
  case (Cons ev pre)
  show ?case
  proof (cases ev)
    case FromExpiration
    with Cons.IH [of True w] show ?thesis by simp
  next
    case FromTick
    show ?thesis
    proof (cases ex)
      case True
      with FromTick show ?thesis by (simp split: option.split prod.split)
    next
      case False
      show ?thesis
      proof (cases "Message ctx")
        case None
        with FromTick False show ?thesis by simp
      next
        case (Some m)
        obtain res w' where p: "poll (Session ctx) (ChannelID m) (Message.ID m) opt w = (res, w')"
          by (cases "poll (Session ctx) (ChannelID m) (Message.ID m) opt w")
        show ?thesis
        proof (cases res)
          case Panic
          with FromTick False Some p show ?thesis by (simp add: watcher_tick_panic)
        next
          case (Return ue)
          obtain u err where ue: "ue = (u, err)" by (cases ue)
          show ?thesis
          proof (cases err)
            case (Some e)
            with FromTick False \<open>Message ctx = Some m\<close> p Return ue show ?thesis
              by (simp add: watcher_tick_error)
          next
            case None
            show ?thesis
            proof (cases "u = emptyUser")
              case True
              with p Return ue None
              have "poll (Session ctx) (ChannelID m) (Message.ID m) opt w = (Return (emptyUser, None), w')"
                by simp
              from watcher_tick_nobody [OF \<open>Message ctx = Some m\<close> this]
              show ?thesis using FromTick False Cons.IH [of False w'] by simp
            next
              case neq: False
              from p Return ue None
              have "poll (Session ctx) (ChannelID m) (Message.ID m) opt w = (Return (u, None), w')"
                by simp
              from watcher_tick_success [OF \<open>Message ctx = Some m\<close> this neq]
              show ?thesis using FromTick False Cons.IH [of False] by simp
            qed
          qed
        qed
      qed
    qed
  qed
qed



lemma watcher_loop_trace:
  "\<exists>added. trace (snd (watcher_loop ctx opt ex evs w)) = trace w @ added
     \<and> ((\<exists>ex'. fst (watcher_loop ctx opt ex evs w) = Running ex') \<longrightarrow> (\<forall>a\<in>set added. goes_on a))"
proof (induction evs arbitrary: ex w)
  case Nil
  show ?case by simp
next
  case (Cons ev evs)
  show ?case
  proof (cases ev)
    case FromExpiration
    with Cons.IH [of True w] show ?thesis by simp
  next
    case FromTick
    show ?thesis
    proof (cases ex)
      case True
      with FromTick show ?thesis by (simp split: option.split prod.split)
    next
      case False
      show ?thesis
      proof (cases "Message ctx")
        case None
        with FromTick False show ?thesis by simp
      next
        case (Some m)
        obtain res w' where p: "poll (Session ctx) (ChannelID m) (Message.ID m) opt w = (res, w')"
          by (cases "poll (Session ctx) (ChannelID m) (Message.ID m) opt w")
        from poll_trace [of "Session ctx" "ChannelID m" "Message.ID m" opt w] p
        obtain a1 where a1: "trace w' = trace w @ a1" "\<forall>a\<in>set a1. goes_on a"
          by (auto simp: goes_on_def)
        show ?thesis
        proof (cases res)
          case Panic
          with FromTick False Some p a1 show ?thesis by (simp add: watcher_tick_panic)
        next
          case (Return ue)
          obtain u err where ue: "ue = (u, err)" by (cases ue)
          show ?thesis
          proof (cases err)
            case (Some e)
            with FromTick False \<open>Message ctx = Some m\<close> p Return ue a1 show ?thesis
              by (simp add: watcher_tick_error)
          next
            case None
            show ?thesis
            proof (cases "u = emptyUser")
              case True
              with p Return ue None
              have "poll (Session ctx) (ChannelID m) (Message.ID m) opt w = (Return (emptyUser, None), w')"
                by simp
              from watcher_tick_nobody [OF \<open>Message ctx = Some m\<close> this]
              have step: "watcher_loop ctx opt ex (ev # evs) w = watcher_loop ctx opt False evs w'"
                using FromTick False by simp
              from Cons.IH [of False w'] obtain a2 where
                "trace (snd (watcher_loop ctx opt False evs w')) = trace w' @ a2"
                "(\<exists>ex'. fst (watcher_loop ctx opt False evs w') = Running ex') \<longrightarrow> (\<forall>a\<in>set a2. goes_on a)"
                by blast
              with a1 step show ?thesis by auto
            next
              case neq: False
              let ?w2 = "w'\<lparr> svc := OnSucess opt u ctx (svc w'), trace := trace w' @ [CbSucess u] \<rparr>"
              from p Return ue None
              have "poll (Session ctx) (ChannelID m) (Message.ID m) opt w = (Return (u, None), w')"
                by simp
              from watcher_tick_success [OF \<open>Message ctx = Some m\<close> this neq]
              have step: "watcher_loop ctx opt ex (ev # evs) w = watcher_loop ctx opt False evs ?w2"
                using FromTick False by simp
              from Cons.IH [of False ?w2] obtain a2 where
                "trace (snd (watcher_loop ctx opt False evs ?w2)) = trace ?w2 @ a2"
                "(\<exists>ex'. fst (watcher_loop ctx opt False evs ?w2) = Running ex') \<longrightarrow> (\<forall>a\<in>set a2. goes_on a)"
                by blast
              with a1 step show ?thesis by (auto simp: goes_on_def)
            qed
          qed
        qed
      qed
    qed
  qed
qed

lemma watcher_running_quiet:
  assumes "watcher_loop ctx opt ex evs w = (Running ex', w')"
    and "\<And>a. goes_on a \<Longrightarrow> \<not> P a"
  shows "filter P (trace w') = filter P (trace w)"
proof -
  from watcher_loop_trace [of ctx opt ex evs w] assms(1)
  obtain added where "trace w' = trace w @ added" "\<forall>a\<in>set added. goes_on a" by auto
  with assms(2) show ?thesis by (simp add: filter_empty_conv)
qed




lemma Add_range_append:
  "Add_range ctx (pre @ rest) w =
     (case Add_range ctx pre w of
        (Return None, w1) \<Rightarrow> Add_range ctx rest w1
      | r \<Rightarrow> r)"
proof (induction pre arbitrary: w)
  case Nil
  show ?case by simp
next
  case (Cons v pre)
  show ?case
  proof (cases "Message ctx")
    case None
    then show ?thesis by simp
  next
    case (Some m)
    note msg = this
    show ?thesis
    proof (cases "Session ctx")
      case None
      with msg show ?thesis by simp
    next
      case (Some ses)
      obtain err s1 where att:
        "MessageReactionAdd ses (ChannelID m) (Message.ID m) (Emoji v) (svc w) = (err, s1)"
        by (cases "MessageReactionAdd ses (ChannelID m) (Message.ID m) (Emoji v) (svc w)")
      show ?thesis
      proof (cases err)
        case None
        with msg Some att Cons.IH show ?thesis by (simp add: Let_def)
      next
        case (Some e)
        with msg \<open>Session ctx = Some ses\<close> att show ?thesis by (simp add: Let_def)
      qed
    qed
  qed
qed

lemma Add_range_ok_trace:
  assumes "Message ctx = Some m"
  shows "Add_range ctx vs w = (Return None, w1) \<Longrightarrow> trace w1 = trace w @ Add_plan m vs"
proof (induction vs arbitrary: w)
  case Nil
  then show ?case by simp
next
  case (Cons v vs)
  from Cons.prems assms obtain ses where ses: "Session ctx = Some ses"
    by (cases "Session ctx") simp_all
  obtain err s1 where att:
    "MessageReactionAdd ses (ChannelID m) (Message.ID m) (Emoji v) (svc w) = (err, s1)"
    by (cases "MessageReactionAdd ses (ChannelID m) (Message.ID m) (Emoji v) (svc w)")
  show ?case
  proof (cases err)
    case None
    let ?w2 = "w\<lparr> svc := s1,
      trace := trace w @ [CallReactionAdd (ChannelID m) (Message.ID m) (Emoji v), GoWatcher v] \<rparr>"
    from Cons.prems assms ses att None have "Add_range ctx vs ?w2 = (Return None, w1)"
      by (simp add: Let_def)
    from Cons.IH [OF this] show ?thesis by simp
  next
    case (Some e)
    with Cons.prems assms ses att show ?thesis by (simp add: Let_def)
  qed
qed

section \<open>Facts about actions\<close>

lemma listing_or_removal:
  "is_poll_call a \<or> is_remove_call a \<Longrightarrow>
     \<not> is_success_cb a \<and> \<not> is_error_cb a \<and> \<not> is_cleanup_call a"
  by (cases a) simp_all

lemma goes_on_not_final: "goes_on a \<Longrightarrow> \<not> is_error_cb a \<and> \<not> is_cleanup_call a"
  by (cases a) (simp_all add: goes_on_def)

section \<open>The claims\<close>

lemmas mem_defs =
  memSession_def botUser_def userA_def userB_def memMessage_def memContext_def memOption_def
  memWorld_def emptyUser_def zero_account_def




text \<open>
  Claim C2 asks that a tick rate of zero or less is rejected. \<^verbatim>\<open>NewWatcher\<close> compares
  the tick rate with zero only: at the negative tick rate \<open>-1\<close> it returns the context
  built from its arguments and no error. A watcher of that context hands the rate to
  \<^verbatim>\<open>time.Tick\<close>, which gives no ticker for a rate of zero or less.
\<close>

theorem NewWatcher_accepts_negative:
  "sint (- 1 :: Duration) < 0
   \<and> NewWatcher (Some memMessage) (Some (memSession ''1'')) (- 1) (None :: unit option) =
       (Some \<lparr> Message = Some memMessage, Session = Some (memSession ''1''), TickRate = - 1,
               Data = None \<rparr>, None)"
  by (simp add: NewWatcher_def)

text \<open>
  Claim C3. \<^verbatim>\<open>Add\<close> with no options fails with the error "no emoji options
  specified", whatever the context pointer is; the world is left as it was: no call to
  the service (no reaction attached) and no watcher started.
\<close>

theorem Add_no_options:
  "Add ctxp [] w = (Return (Some (Errorf ''no emoji options specified'' [])), w)"
  by (simp add: Add_def)

text \<open>
  Claim C4. When the service lists the reactors as some reactions of the bot itself, then
  a user \<open>u\<close> who is not the bot, then any further users, and the removal of \<open>u\<close>'s
  reaction goes through, \<^verbatim>\<open>poll\<close> returns \<open>u\<close> with no error after exactly two calls:
  the listing, and one \<^verbatim>\<open>MessageReactionRemove\<close> for \<open>u\<close> on the option's emoji. The
  users after \<open>u\<close> do not occur in the outcome. The list [bot, userA, userB] is the case
  of one leading bot and one trailing user.
\<close>

theorem poll_first_other:
  assumes "MessageReactions ses c m (Emoji opt) (ReactionLimit opt) (svc w) = (Inr (pre @ u # rest), s1)"
    and "\<forall>x\<in>set pre. User.ID x = StateUserID ses"
    and "User.ID u \<noteq> StateUserID ses"
    and "MessageReactionRemove ses c m (Emoji opt) (User.ID u) s1 = (None, s2)"
  shows "poll (Some ses) c m opt w =
           (Return (u, None),
            w\<lparr> svc := s2,
               trace := trace w @ [CallReactions c m (Emoji opt) (ReactionLimit opt),
                                   CallReactionRemove c m (Emoji opt) (User.ID u)] \<rparr>)"
proof -
  let ?w1 = "w\<lparr> svc := s1, trace := trace w @ [CallReactions c m (Emoji opt) (ReactionLimit opt)] \<rparr>"
  from assms(4) have "MessageReactionRemove ses c m (Emoji opt) (User.ID u) (svc ?w1) = (None, s2)"
    by simp
  from poll_range_first [OF assms(2,3) this, of rest]
  show ?thesis by (simp add: poll_unfold [OF assms(1)])
qed

text \<open>The list [bot, userA, userB] on the service in memory.\<close>

theorem poll_first_other_witness:
  "poll (Some (memSession ''1'')) ''7'' ''70'' (memOption ''x'')
     (memWorld [botUser, userA, userB] [] 5 False) =
   (Return (userA, None),
    \<lparr> svc = \<lparr> reactors = [botUser, userB], refused = [], listings = 4, removeDown = False \<rparr>,
      trace = [CallReactions ''7'' ''70'' ''x'' 10, CallReactionRemove ''7'' ''70'' ''x'' ''2''] \<rparr>)"
proof -
  let ?ses = "memSession ''1''"
  let ?opt = "memOption ''x''"
  let ?w = "memWorld [botUser, userA, userB] [] 5 False"
  let ?s1 = "\<lparr> reactors = [botUser, userA, userB], refused = [], listings = 4, removeDown = False \<rparr>"
  let ?s2 = "\<lparr> reactors = [botUser, userB], refused = [], listings = 4, removeDown = False \<rparr>"
  have h1: "MessageReactions ?ses ''7'' ''70'' (Emoji ?opt) (ReactionLimit ?opt) (svc ?w) =
              (Inr ([botUser] @ userA # [userB]), ?s1)"
    by (simp add: mem_defs)
  have h2: "\<forall>x\<in>set [botUser]. User.ID x = StateUserID ?ses" by (simp add: mem_defs)
  have h3: "User.ID userA \<noteq> StateUserID ?ses" by (simp add: mem_defs)
  have h4: "MessageReactionRemove ?ses ''7'' ''70'' (Emoji ?opt) (User.ID userA) ?s1 = (None, ?s2)"
    by (simp add: mem_defs)
  from poll_first_other [OF h1 h2 h3 h4] show ?thesis by (simp add: mem_defs)
qed

text \<open>
  Claim C5. When the service lists only reactions of the bot itself (or none at all),
  \<^verbatim>\<open>poll\<close> returns the zero user and no error after the listing alone, with no
  \<^verbatim>\<open>MessageReactionRemove\<close>; the watcher's tick adds no callback and the watcher is
  still polling afterwards.
\<close>

theorem poll_nobody:
  assumes "Message ctx = Some m" and "Session ctx = Some ses"
    and "MessageReactions ses (ChannelID m) (Message.ID m) (Emoji opt) (ReactionLimit opt) (svc w) =
           (Inr users, s1)"
    and "\<forall>x\<in>set users. User.ID x = StateUserID ses"
  shows "poll (Session ctx) (ChannelID m) (Message.ID m) opt w =
           (Return (emptyUser, None),
            w\<lparr> svc := s1,
               trace := trace w @
                 [CallReactions (ChannelID m) (Message.ID m) (Emoji opt) (ReactionLimit opt)] \<rparr>)
         \<and> watcher_loop ctx opt False (FromTick # evs) w =
             watcher_loop ctx opt False evs
               (w\<lparr> svc := s1,
                   trace := trace w @
                     [CallReactions (ChannelID m) (Message.ID m) (Emoji opt) (ReactionLimit opt)] \<rparr>)
         \<and> watcher_loop ctx opt False [FromTick] w =
             (Running False,
              w\<lparr> svc := s1,
                 trace := trace w @
                   [CallReactions (ChannelID m) (Message.ID m) (Emoji opt) (ReactionLimit opt)] \<rparr>)"
proof -
  let ?w1 = "w\<lparr> svc := s1,
    trace := trace w @ [CallReactions (ChannelID m) (Message.ID m) (Emoji opt) (ReactionLimit opt)] \<rparr>"
  have p: "poll (Session ctx) (ChannelID m) (Message.ID m) opt w = (Return (emptyUser, None), ?w1)"
    using assms(2) by (simp add: poll_unfold [OF assms(3)] poll_range_nobody [OF assms(4)])
  from watcher_tick_nobody [OF assms(1) p]
  have "\<And>es. watcher_loop ctx opt False (FromTick # es) w = watcher_loop ctx opt False es ?w1" .
  from p this [of evs] this [of "[]"] show ?thesis by simp
qed

text \<open>A list holding only the bot, and the empty list.\<close>

theorem poll_nobody_witness:
  "watcher_loop memContext (memOption ''x'') False [FromTick] (memWorld [botUser] [] 5 False) =
     (Running False,
      \<lparr> svc = \<lparr> reactors = [botUser], refused = [], listings = 4, removeDown = False \<rparr>,
        trace = [CallReactions ''7'' ''70'' ''x'' 10] \<rparr>)
   \<and> poll (Session memContext) ''7'' ''70'' (memOption ''x'') (memWorld [] [] 5 False) =
     (Return (emptyUser, None),
      \<lparr> svc = \<lparr> reactors = [], refused = [], listings = 4, removeDown = False \<rparr>,
        trace = [CallReactions ''7'' ''70'' ''x'' 10] \<rparr>)"
proof -
  let ?ses = "memSession ''1''"
  let ?opt = "memOption ''x''"
  have c1: "Message memContext = Some memMessage" by (simp add: mem_defs)
  have c2: "Session memContext = Some ?ses" by (simp add: mem_defs)
  have l1: "MessageReactions ?ses (ChannelID memMessage) (Message.ID memMessage) (Emoji ?opt)
              (ReactionLimit ?opt) (svc (memWorld [botUser] [] 5 False)) =
            (Inr [botUser], \<lparr> reactors = [botUser], refused = [], listings = 4, removeDown = False \<rparr>)"
    by (simp add: mem_defs)
  have b1: "\<forall>x\<in>set [botUser]. User.ID x = StateUserID ?ses" by (simp add: mem_defs)
  have l2: "MessageReactions ?ses (ChannelID memMessage) (Message.ID memMessage) (Emoji ?opt)
              (ReactionLimit ?opt) (svc (memWorld [] [] 5 False)) =
            (Inr [], \<lparr> reactors = [], refused = [], listings = 4, removeDown = False \<rparr>)"
    by (simp add: mem_defs)
  have b2: "\<forall>x\<in>set []. User.ID x = StateUserID ?ses" by simp
  from poll_nobody [OF c1 c2 l1 b1, of "[]"] poll_nobody [OF c1 c2 l2 b2, of "[]"]
  show ?thesis by (simp add: mem_defs del: watcher_loop.simps(2,3))
qed

text \<open>
  Claim C6. A watcher that is still running when its expiration timer fires only sets
  \<^verbatim>\<open>expired\<close>; on the next tick it calls \<^verbatim>\<open>MessageReactionsRemoveAll\<close>, drops the
  result \<open>r\<close> of that call whatever it is, and returns, so that later events add nothing:
  no further poll. Over its whole run the watcher has added exactly this one cleanup call
  to the trace.
\<close>

theorem watcher_expiry_cleanup:
  assumes "Message ctx = Some m" and "Session ctx = Some ses"
    and "watcher ctx opt pre w0 = (Running ex, w)"
    and "MessageReactionsRemoveAll ses (ChannelID m) (Message.ID m) (svc w) = (r, s1)"
  shows "watcher ctx opt (pre @ [FromExpiration]) w0 = (Running True, w)
         \<and> watcher ctx opt (pre @ FromExpiration # FromTick # evs) w0 =
             (Returned,
              w\<lparr> svc := s1,
                 trace := trace w @ [CallReactionsRemoveAll (ChannelID m) (Message.ID m)] \<rparr>)
         \<and> filter is_cleanup_call
               (trace w @ [CallReactionsRemoveAll (ChannelID m) (Message.ID m)]) =
             filter is_cleanup_call (trace w0) @
               [CallReactionsRemoveAll (ChannelID m) (Message.ID m)]"
proof -
  from assms(3) have run: "watcher_loop ctx opt False pre w0 = (Running ex, w)"
    by (simp add: watcher_def)
  have flag: "watcher ctx opt (pre @ [FromExpiration]) w0 = (Running True, w)"
    by (simp add: watcher_def watcher_loop_append [of ctx opt False pre] run)
  have fin: "watcher ctx opt (pre @ FromExpiration # FromTick # evs) w0 =
               (Returned,
                w\<lparr> svc := s1,
                   trace := trace w @ [CallReactionsRemoveAll (ChannelID m) (Message.ID m)] \<rparr>)"
    using watcher_tick_expired [OF assms(1,2,4), of opt evs]
    by (simp add: watcher_def watcher_loop_append [of ctx opt False pre] run
          del: watcher_loop.simps(3))
  have "filter is_cleanup_call (trace w) = filter is_cleanup_call (trace w0)"
    by (rule watcher_running_quiet [OF run]) (simp add: goes_on_not_final)
  then have cnt: "filter is_cleanup_call
               (trace w @ [CallReactionsRemoveAll (ChannelID m) (Message.ID m)]) =
             filter is_cleanup_call (trace w0) @
               [CallReactionsRemoveAll (ChannelID m) (Message.ID m)]" by simp
  from flag fin cnt show ?thesis by blast
qed

text \<open>
  Two ticks with only the bot listed, the expiration, a third tick, and a fourth that is
  never handled; the service refuses the cleanup and the watcher returns all the same.
\<close>

theorem watcher_expiry_cleanup_witness:
  "watcher memContext (memOption ''x'') [FromTick, FromTick, FromExpiration, FromTick, FromTick]
     (memWorld [botUser] [] 5 True) =
   (Returned,
    \<lparr> svc = \<lparr> reactors = [botUser], refused = [], listings = 3, removeDown = True \<rparr>,
      trace = [CallReactions ''7'' ''70'' ''x'' 10, CallReactions ''7'' ''70'' ''x'' 10,
               CallReactionsRemoveAll ''7'' ''70''] \<rparr>)"
proof -
  let ?opt = "memOption ''x''"
  let ?init = "memWorld [botUser] [] 5 True"
  let ?s = "\<lparr> reactors = [botUser], refused = [], listings = 3, removeDown = True \<rparr>"
  let ?w = "\<lparr> svc = ?s,
    trace = [CallReactions ''7'' ''70'' ''x'' 10, CallReactions ''7'' ''70'' ''x'' 10] \<rparr>
    :: (remote, unit, account) world"
  have c1: "Message memContext = Some memMessage" by (simp add: mem_defs)
  have c2: "Session memContext = Some (memSession ''1'')" by (simp add: mem_defs)
  have h3: "watcher memContext ?opt [FromTick, FromTick] ?init = (Running False, ?w)"
    by (simp add: watcher_def poll_def mem_defs)
  have h4: "MessageReactionsRemoveAll (memSession ''1'') (ChannelID memMessage)
              (Message.ID memMessage) (svc ?w) = (Some (LibError ''Missing Permissions''), ?s)"
    by (simp add: mem_defs)
  from watcher_expiry_cleanup [OF c1 c2 h3 h4, of "[FromTick]"]
  show ?thesis by (simp add: mem_defs del: watcher_loop.simps(2,3))
qed

text \<open>
  Claim C7. A watcher that is polling at some tick, and whose poll there fails, calls
  \<^verbatim>\<open>OnError\<close> with the error and returns on that tick; later events add nothing.
  Over its whole run the watcher has added exactly this one error callback and no
  \<^verbatim>\<open>MessageReactionsRemoveAll\<close> call to the trace.
\<close>

theorem watcher_poll_error:
  assumes "Message ctx = Some m"
    and "watcher ctx opt pre w0 = (Running False, w)"
    and "poll (Session ctx) (ChannelID m) (Message.ID m) opt w = (Return (u, Some e), w')"
  shows "watcher ctx opt (pre @ FromTick # evs) w0 =
           (Returned, w'\<lparr> svc := OnError opt e ctx (svc w'), trace := trace w' @ [CbError e] \<rparr>)
         \<and> filter is_error_cb (trace w' @ [CbError e]) =
             filter is_error_cb (trace w0) @ [CbError e]
         \<and> filter is_cleanup_call (trace w' @ [CbError e]) = filter is_cleanup_call (trace w0)"
proof -
  from assms(2) have run: "watcher_loop ctx opt False pre w0 = (Running False, w)"
    by (simp add: watcher_def)
  have fin: "watcher ctx opt (pre @ FromTick # evs) w0 =
           (Returned, w'\<lparr> svc := OnError opt e ctx (svc w'), trace := trace w' @ [CbError e] \<rparr>)"
    using watcher_tick_error [OF assms(1,3), of evs]
    by (simp add: watcher_def watcher_loop_append [of ctx opt False pre] run
          del: watcher_loop.simps(3))
  from poll_trace [of "Session ctx" "ChannelID m" "Message.ID m" opt w] assms(3)
  obtain added where tr: "trace w' = trace w @ added"
    and "\<forall>a\<in>set added. is_poll_call a \<or> is_remove_call a" by auto
  then have q: "filter is_error_cb added = []" "filter is_cleanup_call added = []"
    using listing_or_removal by (fastforce simp: filter_empty_conv)+
  have e0: "filter is_error_cb (trace w) = filter is_error_cb (trace w0)"
    by (rule watcher_running_quiet [OF run]) (simp add: goes_on_not_final)
  have c0: "filter is_cleanup_call (trace w) = filter is_cleanup_call (trace w0)"
    by (rule watcher_running_quiet [OF run]) (simp add: goes_on_not_final)
  from fin tr q e0 c0 show ?thesis by simp
qed

text \<open>
  The service answers one listing and fails the next: the second tick ends the watcher
  with the error callback, the third tick is never handled.
\<close>

theorem watcher_poll_error_witness:
  "watcher memContext (memOption ''x'') [FromTick, FromTick, FromTick]
     (memWorld [botUser] [] 1 False) =
   (Returned,
    \<lparr> svc = \<lparr> reactors = [botUser], refused = [], listings = 0, removeDown = False \<rparr>,
      trace = [CallReactions ''7'' ''70'' ''x'' 10, CallReactions ''7'' ''70'' ''x'' 10,
               CbError (LibError ''Service Unavailable'')] \<rparr>)"
proof -
  let ?opt = "memOption ''x''"
  let ?init = "memWorld [botUser] [] 1 False"
  let ?s = "\<lparr> reactors = [botUser], refused = [], listings = 0, removeDown = False \<rparr>"
  let ?w = "\<lparr> svc = ?s, trace = [CallReactions ''7'' ''70'' ''x'' 10] \<rparr> :: (remote, unit, account) world"
  let ?w' = "\<lparr> svc = ?s,
    trace = [CallReactions ''7'' ''70'' ''x'' 10, CallReactions ''7'' ''70'' ''x'' 10] \<rparr>
    :: (remote, unit, account) world"
  have c1: "Message memContext = Some memMessage" by (simp add: mem_defs)
  have h2: "watcher memContext ?opt [FromTick] ?init = (Running False, ?w)"
    by (simp add: watcher_def poll_def mem_defs)
  have h3: "poll (Session memContext) (ChannelID memMessage) (Message.ID memMessage) ?opt ?w =
              (Return (emptyUser, Some (LibError ''Service Unavailable'')), ?w')"
    by (simp add: poll_def mem_defs)
  from watcher_poll_error [OF c1 h2 h3, of "[FromTick]"]
  show ?thesis by (simp add: mem_defs del: watcher_loop.simps(2,3))
qed

text \<open>
  Claim C8. \<^verbatim>\<open>Add\<close> goes through the options in the order given, attaching the
  reaction of an option and then starting its watcher. When the loop has gone through the
  options \<open>pre\<close> and reaches \<open>v\<close>: the trace so far is the attach call and the watcher
  start of each option of \<open>pre\<close>, in order; if the attach call for \<open>v\<close> fails, \<^verbatim>\<open>Add\<close>
  returns its error at once, the options after \<open>v\<close> are not touched, and the trace ends
  with the failed attach call: nothing attached or started for \<open>pre\<close> is undone; if it
  succeeds and \<open>v\<close> is the last option, \<^verbatim>\<open>Add\<close> returns no error, with \<open>v\<close>'s watcher
  started after its attach call. The goroutines started are recorded, not run: \<^verbatim>\<open>Add\<close>
  does not wait for them.
\<close>

theorem Add_in_order_fail_fast:
  assumes "Message ctx = Some m" and "Session ctx = Some ses"
    and "Add_range ctx pre w = (Return None, w1)"
    and "MessageReactionAdd ses (ChannelID m) (Message.ID m) (Emoji v) (svc w1) = (r, s2)"
  shows "trace w1 = trace w @ Add_plan m pre
         \<and> (r \<noteq> None \<longrightarrow>
              Add (Some ctx) (pre @ v # post) w =
                (Return (Some (Errorf
                   ''can't add reaction to message %q. Was that a unicode emoji?''
                   [Message.ID m])),
                 w1\<lparr> svc := s2,
                     trace := trace w @ Add_plan m pre @
                       [CallReactionAdd (ChannelID m) (Message.ID m) (Emoji v)] \<rparr>))
         \<and> (r = None \<longrightarrow>
              Add (Some ctx) (pre @ [v]) w =
                (Return None,
                 w1\<lparr> svc := s2, trace := trace w @ Add_plan m pre @ Add_plan m [v] \<rparr>))"
proof -
  have tr: "trace w1 = trace w @ Add_plan m pre"
    by (rule Add_range_ok_trace [OF assms(1,3)])
  have bad: "Add (Some ctx) (pre @ v # post) w =
                (Return (Some (Errorf
                   ''can't add reaction to message %q. Was that a unicode emoji?''
                   [Message.ID m])),
                 w1\<lparr> svc := s2,
                     trace := trace w @ Add_plan m pre @
                       [CallReactionAdd (ChannelID m) (Message.ID m) (Emoji v)] \<rparr>)"
    if "r \<noteq> None"
  proof -
    from that obtain e where "r = Some e" by blast
    with assms tr show ?thesis
      by (simp add: Add_def Add_range_append [of ctx pre] Let_def)
  qed
  have good: "Add (Some ctx) (pre @ [v]) w =
                (Return None,
                 w1\<lparr> svc := s2, trace := trace w @ Add_plan m pre @ Add_plan m [v] \<rparr>)"
    if "r = None"
    using that assms tr by (simp add: Add_def Add_range_append [of ctx pre] Let_def)
  from tr bad good show ?thesis by blast
qed

text \<open>Three options, the service refuses the emoji of the second.\<close>

theorem Add_in_order_fail_fast_witness:
  "Add (Some memContext) [memOption ''a'', memOption ''b'', memOption ''c'']
     (memWorld [] [''b''] 5 False) =
   (Return (Some (Errorf ''can't add reaction to message %q. Was that a unicode emoji?'' [''70''])),
    \<lparr> svc = \<lparr> reactors = [], refused = [''b''], listings = 5, removeDown = False \<rparr>,
      trace = [CallReactionAdd ''7'' ''70'' ''a'', GoWatcher (memOption ''a''),
               CallReactionAdd ''7'' ''70'' ''b''] \<rparr>)"
proof -
  let ?init = "memWorld [] [''b''] 5 False"
  let ?s = "\<lparr> reactors = [], refused = [''b''], listings = 5, removeDown = False \<rparr>"
  let ?w1 = "\<lparr> svc = ?s, trace = [CallReactionAdd ''7'' ''70'' ''a'', GoWatcher (memOption ''a'')] \<rparr>
    :: (remote, unit, account) world"
  have c1: "Message memContext = Some memMessage" by (simp add: mem_defs)
  have c2: "Session memContext = Some (memSession ''1'')" by (simp add: mem_defs)
  have h3: "Add_range memContext [memOption ''a''] ?init = (Return None, ?w1)"
    by (simp add: mem_defs)
  have h4: "MessageReactionAdd (memSession ''1'') (ChannelID memMessage) (Message.ID memMessage)
              (Emoji (memOption ''b'')) (svc ?w1) = (Some (LibError ''Unknown Emoji''), ?s)"
    by (simp add: mem_defs)
  from Add_in_order_fail_fast [OF c1 c2 h3 h4, of "[memOption ''c'']"]
  show ?thesis by (simp add: mem_defs)
qed

text \<open>
  Claim C9. When \<^verbatim>\<open>NewWatcher\<close> rejects a tick rate of zero, the pointer it returns
  beside the error is not nil: it is the address of a zero-valued \<^verbatim>\<open>WatchContext\<close>.
\<close>

theorem NewWatcher_zero_context:
  "NewWatcher message session 0 data =
     (Some \<lparr> Message = None, Session = None, TickRate = 0, Data = None \<rparr>,
      Some (Errorf ''no tickrate specified (cannot be 0)'' []))
   \<and> fst (NewWatcher message session 0 data) \<noteq> None"
  by (simp add: NewWatcher_def)

text \<open>
  Claim C10. When the removal of the first non-bot user's reaction fails, \<^verbatim>\<open>poll\<close>
  returns that error together with the zero user; the watcher's tick then calls
  \<^verbatim>\<open>OnError\<close> with it and returns. From the listing on, the tick adds the two remote
  calls and the error callback, and no success callback; later events change nothing.
\<close>

theorem poll_remove_fails:
  assumes "Message ctx = Some m" and "Session ctx = Some ses"
    and "MessageReactions ses (ChannelID m) (Message.ID m) (Emoji opt) (ReactionLimit opt) (svc w) =
           (Inr (pre @ u # rest), s1)"
    and "\<forall>x\<in>set pre. User.ID x = StateUserID ses"
    and "User.ID u \<noteq> StateUserID ses"
    and "MessageReactionRemove ses (ChannelID m) (Message.ID m) (Emoji opt) (User.ID u) s1 =
           (Some e, s2)"
  shows "poll (Session ctx) (ChannelID m) (Message.ID m) opt w =
           (Return (emptyUser, Some e),
            w\<lparr> svc := s2,
               trace := trace w @
                 [CallReactions (ChannelID m) (Message.ID m) (Emoji opt) (ReactionLimit opt),
                  CallReactionRemove (ChannelID m) (Message.ID m) (Emoji opt) (User.ID u)] \<rparr>)
         \<and> watcher_loop ctx opt False (FromTick # evs) w =
             (Returned,
              w\<lparr> svc := OnError opt e ctx s2,
                 trace := trace w @
                   [CallReactions (ChannelID m) (Message.ID m) (Emoji opt) (ReactionLimit opt),
                    CallReactionRemove (ChannelID m) (Message.ID m) (Emoji opt) (User.ID u),
                    CbError e] \<rparr>)"
proof -
  let ?w1 = "w\<lparr> svc := s1,
    trace := trace w @ [CallReactions (ChannelID m) (Message.ID m) (Emoji opt) (ReactionLimit opt)] \<rparr>"
  let ?w2 = "w\<lparr> svc := s2,
    trace := trace w @
      [CallReactions (ChannelID m) (Message.ID m) (Emoji opt) (ReactionLimit opt),
       CallReactionRemove (ChannelID m) (Message.ID m) (Emoji opt) (User.ID u)] \<rparr>"
  from assms(6)
  have "MessageReactionRemove ses (ChannelID m) (Message.ID m) (Emoji opt) (User.ID u) (svc ?w1) =
          (Some e, s2)" by simp
  from poll_range_first [OF assms(4,5) this, of rest]
  have p: "poll (Session ctx) (ChannelID m) (Message.ID m) opt w = (Return (emptyUser, Some e), ?w2)"
    using assms(2) by (simp add: poll_unfold [OF assms(3)])
  from p watcher_tick_error [OF assms(1) p, of evs] show ?thesis by simp
qed

text \<open>
  The service refuses removals: the first tick ends the watcher with the error callback,
  the second tick is never handled.
\<close>

theorem poll_remove_fails_witness:
  "watcher_loop memContext (memOption ''x'') False [FromTick, FromTick]
     (memWorld [botUser, userA] [] 5 True) =
   (Returned,
    \<lparr> svc = \<lparr> reactors = [botUser, userA], refused = [], listings = 4, removeDown = True \<rparr>,
      trace = [CallReactions ''7'' ''70'' ''x'' 10, CallReactionRemove ''7'' ''70'' ''x'' ''2'',
               CbError (LibError ''Missing Permissions'')] \<rparr>)"
proof -
  let ?ses = "memSession ''1''"
  let ?opt = "memOption ''x''"
  let ?s1 = "\<lparr> reactors = [botUser, userA], refused = [], listings = 4, removeDown = True \<rparr>"
  have c1: "Message memContext = Some memMessage" by (simp add: mem_defs)
  have c2: "Session memContext = Some ?ses" by (simp add: mem_defs)
  have h1: "MessageReactions ?ses (ChannelID memMessage) (Message.ID memMessage) (Emoji ?opt)
              (ReactionLimit ?opt) (svc (memWorld [botUser, userA] [] 5 True)) =
            (Inr ([botUser] @ userA # []), ?s1)"
    by (simp add: mem_defs)
  have h2: "\<forall>x\<in>set [botUser]. User.ID x = StateUserID ?ses" by (simp add: mem_defs)
  have h3: "User.ID userA \<noteq> StateUserID ?ses" by (simp add: mem_defs)
  have h4: "MessageReactionRemove ?ses (ChannelID memMessage) (Message.ID memMessage) (Emoji ?opt)
              (User.ID userA) ?s1 = (Some (LibError ''Missing Permissions''), ?s1)"
    by (simp add: mem_defs)
  from poll_remove_fails [OF c1 c2 h1 h2 h3 h4, of "[FromTick]"]
  show ?thesis by (simp add: mem_defs del: watcher_loop.simps(2,3))
qed

end
